theory Spec2Isabelle
  imports Main
begin

section \<open>JavaScript values used by the delivery pipeline\<close>

text \<open>
  Strings are lists of 8-bit characters. An optional property (\<open>title?: string\<close>) is an
  \<open>option\<close>; \<open>if (content.title)\<close> tests JavaScript truthiness, which for an optional
  string means "present and not empty".
\<close>

definition truthy :: "string option \<Rightarrow> bool" where
  "truthy v = (case v of None \<Rightarrow> False | Some s \<Rightarrow> s \<noteq> [])"

text \<open>\<open>xs && xs.length > 0\<close> for an optional array.\<close>

definition nonEmptyArray :: "'a list option \<Rightarrow> bool" where
  "nonEmptyArray v = (case v of None \<Rightarrow> False | Some xs \<Rightarrow> 0 < length xs)"

text \<open>
  Template literals print an array index or a counter in decimal: \<open>`slide_${index}`\<close>.
\<close>

definition digitChars :: string where
  "digitChars = ''0123456789''"

function numberToString :: "nat \<Rightarrow> string" where
  "numberToString n =
     (if n < 10 then [digitChars ! n]
      else numberToString (n div 10) @ [digitChars ! (n mod 10)])"
  by pat_completeness auto
termination
  by (relation "measure (\<lambda>n. n)") auto

declare numberToString.simps [simp del]

definition intToString :: "int \<Rightarrow> string" where
  "intToString i = (if i < 0 then CHR ''-'' # numberToString (nat (- i)) else numberToString (nat i))"

text \<open>\<open>Array.prototype.join\<close>.\<close>

fun join :: "string \<Rightarrow> string list \<Rightarrow> string" where
  "join sep [] = []"
| "join sep [x] = x"
| "join sep (x # y # ys) = x @ sep @ join sep (y # ys)"

text \<open>\<open>Array.prototype.map\<close> with the element's index as second argument.\<close>

fun mapIndexed :: "('a \<Rightarrow> nat \<Rightarrow> 'b) \<Rightarrow> nat \<Rightarrow> 'a list \<Rightarrow> 'b list" where
  "mapIndexed f i [] = []"
| "mapIndexed f i (x # xs) = f x i # mapIndexed f (Suc i) xs"

text \<open>\<open>Array.prototype.slice(start, end)\<close> for \<open>0 \<le> start \<le> end\<close>: the end is clamped to the length.\<close>

definition slice :: "'a list \<Rightarrow> nat \<Rightarrow> nat \<Rightarrow> 'a list" where
  "slice xs start end' = take (end' - start) (drop start xs)"

text \<open>
  \<open>String.prototype.replace\<close> with a string pattern: the first occurrence is replaced.
\<close>

fun replaceFirst :: "string \<Rightarrow> string \<Rightarrow> string \<Rightarrow> string" where
  "replaceFirst pattern replacement [] = (if pattern = [] then replacement else [])"
| "replaceFirst pattern replacement (c # cs) =
     (if take (length pattern) (c # cs) = pattern
      then replacement @ drop (length pattern) (c # cs)
      else c # replaceFirst pattern replacement cs)"

text \<open>
  \<open>parseInt\<close> on a string that starts with decimal digits or with none (then the result
  is \<open>NaN\<close>, here \<open>None\<close>). Signs, leading white space and the \<open>0x\<close> prefix do not occur
  where the pipeline calls it.
\<close>

definition isDigit :: "char \<Rightarrow> bool" where
  "isDigit c = (c \<in> set digitChars)"

definition digitValue :: "char \<Rightarrow> nat" where
  "digitValue c = (of_char c :: nat) - 48"

definition parseInt :: "string \<Rightarrow> nat option" where
  "parseInt s =
     (let digits = takeWhile isDigit s
      in if digits = [] then None else Some (foldl (\<lambda>n c. 10 * n + digitValue c) 0 digits))"

section \<open>server/errors/presentation-errors.ts\<close>

datatype presentation_error =
    GoogleAuthError
  | TokenExpiredError
  | TokenRefreshError
  | InvalidImageUrlError string
  | UntrustedImageDomainError string
  | BatchSizeExceededError nat nat
  | SlideCreationError nat string
  | SpeakerNotesError "nat option"
  | ImageInsertionError nat string string
  | RateLimitError "int option"

text \<open>
  What a \<open>catch\<close> clause can receive: one of the repository's own error classes, a plain
  \<open>Error\<close> with its message (what the Google client throws), or a value that is not an
  \<open>Error\<close> at all.
\<close>

datatype js_error =
    PresentationError presentation_error
  | Error string
  | NonError

text \<open>The \<open>message\<close> each constructor passes to \<open>super\<close>.\<close>

fun message :: "presentation_error \<Rightarrow> string" where
  "message GoogleAuthError =
     ''Please reconnect your Google account to continue creating presentations.''"
| "message TokenExpiredError =
     ''Your Google session has expired. Please reconnect your Google account.''"
| "message TokenRefreshError =
     ''Failed to refresh your Google access token. Please reconnect your Google account.''"
| "message (InvalidImageUrlError url) =
     ''Invalid or inaccessible image URL: '' @ url @
     ''. Please ensure the image is publicly accessible.''"
| "message (UntrustedImageDomainError url) =
     ''Image URL from untrusted domain: '' @ url @
     ''. Only images from approved sources are allowed.''"
| "message (BatchSizeExceededError slideIndex requestCount) =
     ''Slide '' @ numberToString slideIndex @ '' has too many elements ('' @
     numberToString requestCount @ '' requests). Please simplify the slide.''"
| "message (SlideCreationError slideIndex cause) =
     ''Failed to create slide '' @ numberToString slideIndex @ '': '' @ cause"
| "message (SpeakerNotesError slideIndex) =
     ''Failed to add speaker notes to slide '' @
     (case slideIndex of None \<Rightarrow> ''NaN'' | Some i \<Rightarrow> numberToString i) @
     ''. Notes may not be available.''"
| "message (ImageInsertionError slideIndex imageUrl cause) =
     ''Failed to insert image on slide '' @ numberToString slideIndex @ '': '' @ cause @
     ''. Image URL: '' @ imageUrl"
| "message (RateLimitError retryAfter) =
     (case retryAfter of
        None \<Rightarrow> ''Rate limit exceeded. Please try again later.''
      | Some r \<Rightarrow>
          if r = 0 then ''Rate limit exceeded. Please try again later.''
          else ''Rate limit exceeded. Please try again in '' @ intToString r @ '' seconds.'')"

text \<open>\<open>error instanceof Error ? error.message : 'Unknown error'\<close>.\<close>

fun errorMessage :: "js_error \<Rightarrow> string" where
  "errorMessage (PresentationError e) = message e"
| "errorMessage (Error m) = m"
| "errorMessage NonError = ''Unknown error''"

section \<open>server/constants/slides.ts\<close>

definition DEFAULT_IMAGE_WIDTH_EMU :: nat where "DEFAULT_IMAGE_WIDTH_EMU = 4000000"
definition DEFAULT_IMAGE_HEIGHT_EMU :: nat where "DEFAULT_IMAGE_HEIGHT_EMU = 3000000"
definition IMAGE_POSITION_X_EMU :: nat where "IMAGE_POSITION_X_EMU = 2500000"
definition IMAGE_POSITION_Y_EMU :: nat where "IMAGE_POSITION_Y_EMU = 1500000"
definition TITLE_BOX_WIDTH_EMU :: nat where "TITLE_BOX_WIDTH_EMU = 8000000"
definition TITLE_BOX_HEIGHT_EMU :: nat where "TITLE_BOX_HEIGHT_EMU = 700000"
definition SUBTITLE_BOX_HEIGHT_EMU :: nat where "SUBTITLE_BOX_HEIGHT_EMU = 500000"
definition CONTENT_BOX_WIDTH_EMU :: nat where "CONTENT_BOX_WIDTH_EMU = 8000000"
definition CONTENT_BOX_HEIGHT_EMU :: nat where "CONTENT_BOX_HEIGHT_EMU = 3000000"
definition BULLET_BOX_HEIGHT_EMU :: nat where "BULLET_BOX_HEIGHT_EMU = 3000000"
definition QUESTIONS_BOX_HEIGHT_EMU :: nat where "QUESTIONS_BOX_HEIGHT_EMU = 3500000"
definition TITLE_POSITION_X_EMU :: nat where "TITLE_POSITION_X_EMU = 500000"
definition TITLE_POSITION_Y_EMU :: nat where "TITLE_POSITION_Y_EMU = 500000"
definition SUBTITLE_POSITION_Y_EMU :: nat where "SUBTITLE_POSITION_Y_EMU = 1500000"
definition CONTENT_POSITION_WITH_TITLE_Y_EMU :: nat where "CONTENT_POSITION_WITH_TITLE_Y_EMU = 1500000"
definition CONTENT_POSITION_NO_TITLE_Y_EMU :: nat where "CONTENT_POSITION_NO_TITLE_Y_EMU = 800000"
definition FONT_SIZE_TITLE_PT :: nat where "FONT_SIZE_TITLE_PT = 36"
definition FONT_SIZE_SUBTITLE_PT :: nat where "FONT_SIZE_SUBTITLE_PT = 20"
definition FONT_SIZE_BODY_PT :: nat where "FONT_SIZE_BODY_PT = 16"
definition FONT_SIZE_BULLETS_PT :: nat where "FONT_SIZE_BULLETS_PT = 18"
definition FONT_SIZE_QUESTIONS_PT :: nat where "FONT_SIZE_QUESTIONS_PT = 16"

definition GOOGLE_API_BATCH_SIZE :: nat where "GOOGLE_API_BATCH_SIZE = 100"
definition MAX_REQUESTS_PER_SLIDE :: nat where "MAX_REQUESTS_PER_SLIDE = 10"

text \<open>
  Colour components are the decimal literals of the source, kept in hundredths
  (\<open>0.26\<close> is \<open>26\<close>, \<open>1.0\<close> is \<open>100\<close>); the pipeline only copies them into requests.
\<close>

datatype rgbColor = RgbColor (red: nat) (green: nat) (blue: nat)

datatype themeColors = ThemeColors (primary: rgbColor) (secondary: rgbColor) (accent: rgbColor)

datatype ColorTheme = blue_theme | green_theme | purple_theme | orange_theme | teal_theme | red_theme

fun COLOR_THEMES :: "ColorTheme \<Rightarrow> themeColors" where
  "COLOR_THEMES blue_theme =
     ThemeColors (RgbColor 26 52 96) (RgbColor 13 33 63) (RgbColor 85 92 99)"
| "COLOR_THEMES green_theme =
     ThemeColors (RgbColor 13 59 53) (RgbColor 9 39 35) (RgbColor 84 95 93)"
| "COLOR_THEMES purple_theme =
     ThemeColors (RgbColor 61 35 71) (RgbColor 41 21 51) (RgbColor 95 89 97)"
| "COLOR_THEMES orange_theme =
     ThemeColors (RgbColor 95 61 7) (RgbColor 76 44 5) (RgbColor 100 95 85)"
| "COLOR_THEMES teal_theme =
     ThemeColors (RgbColor 11 66 71) (RgbColor 7 47 51) (RgbColor 83 96 97)"
| "COLOR_THEMES red_theme =
     ThemeColors (RgbColor 91 30 24) (RgbColor 64 17 13) (RgbColor 99 90 89)"

definition TRUSTED_IMAGE_DOMAINS :: "string list" where
  "TRUSTED_IMAGE_DOMAINS =
     [''images.unsplash.com'', ''unsplash.com'', ''plus.unsplash.com'', ''cdn.openai.com'',
      ''oaidalleapiprodscus.blob.core.windows.net'', ''puter.com'', ''api.puter.com'',
      ''storage.googleapis.com'', ''drive.google.com'']"

section \<open>server/utils/url-validator.ts\<close>

text \<open>
  \<open>String.prototype.trim\<close> and \<open>toLowerCase\<close> on the model's 8-bit characters: the white
  space and the letters of ASCII. (Host names that the URL class returns are ASCII.)
\<close>

definition isWhiteSpace :: "char \<Rightarrow> bool" where
  "isWhiteSpace c = (c \<in> set [CHR 0x09, CHR 0x0A, CHR 0x0B, CHR 0x0C, CHR 0x0D, CHR '' ''])"

definition trim :: "string \<Rightarrow> string" where
  "trim s = rev (dropWhile isWhiteSpace (rev (dropWhile isWhiteSpace s)))"

definition lowerChar :: "char \<Rightarrow> char" where
  "lowerChar c =
     (let n = (of_char c :: nat) in if 65 \<le> n \<and> n \<le> 90 then char_of (n + 32) else c)"

definition toLowerCase :: "string \<Rightarrow> string" where
  "toLowerCase s = map lowerChar s"

definition endsWith :: "string \<Rightarrow> string \<Rightarrow> bool" where
  "endsWith s ending = (length ending \<le> length s \<and> drop (length s - length ending) s = ending)"

text \<open>
  The \<open>URL\<close> class belongs to the platform, not to the repository. The validator uses five
  things of it: the constructor, which throws on a string that is not a URL; the
  \<open>protocol\<close> and \<open>hostname\<close> getters; the \<open>protocol\<close> setter; and \<open>href\<close>. They are
  taken as an argument, so that what is proved holds for whatever the platform's class does.
\<close>

record 'u UrlApi =
  newURL :: "string \<Rightarrow> 'u option"
  protocol :: "'u \<Rightarrow> string"
  hostname :: "'u \<Rightarrow> string"
  setProtocol :: "string \<Rightarrow> 'u \<Rightarrow> 'u"
  href :: "'u \<Rightarrow> string"

text \<open>
  \<open>isUrlTrusted\<close> reads the array \<open>TRUSTED_IMAGE_DOMAINS\<close>, which \<open>addTrustedDomain\<close> can
  extend at run time: the current array is the argument \<open>domains\<close>.
\<close>

definition isUrlTrusted :: "'u UrlApi \<Rightarrow> string list \<Rightarrow> string \<Rightarrow> bool" where
  "isUrlTrusted api domains url =
     (case newURL api url of
        None \<Rightarrow> False
      | Some parsedUrl \<Rightarrow>
          let host = toLowerCase (hostname api parsedUrl)
          in list_ex (\<lambda>domain.
               let normalizedDomain = toLowerCase domain
               in host = normalizedDomain \<or> endsWith host (CHR ''.'' # normalizedDomain))
             domains)"

text \<open>Lines 586 to 588: \<open>if (parsedUrl.protocol === 'http:') parsedUrl.protocol = 'https:'\<close>.\<close>

definition upgradeProtocol :: "'u UrlApi \<Rightarrow> 'u \<Rightarrow> 'u" where
  "upgradeProtocol api parsedUrl =
     (if protocol api parsedUrl = ''http:'' then setProtocol api ''https:'' parsedUrl
      else parsedUrl)"

definition validateImageUrl ::
  "'u UrlApi \<Rightarrow> string list \<Rightarrow> string option \<Rightarrow> bool \<Rightarrow> presentation_error + string option" where
  "validateImageUrl api domains url allowUntrusted =
     (case url of
        None \<Rightarrow> Inr None
      | Some given \<Rightarrow>
          if given = [] then Inr None
          else
            let trimmedUrl = trim given
            in if trimmedUrl = [] then Inr None
               else
                 (case newURL api trimmedUrl of
                    None \<Rightarrow> Inl (InvalidImageUrlError trimmedUrl)
                  | Some parsedUrl \<Rightarrow>
                      if protocol api parsedUrl \<notin> set [''http:'', ''https:'']
                      then Inl (InvalidImageUrlError trimmedUrl)
                      else
                        let upgraded = upgradeProtocol api parsedUrl
                        in if \<not> allowUntrusted \<and> \<not> isUrlTrusted api domains (href api upgraded)
                           then Inl (UntrustedImageDomainError (href api upgraded))
                           else Inr (Some (href api upgraded))))"

text \<open>\<open>addTrustedDomain\<close>: the array after the call.\<close>

definition stripScheme :: "string \<Rightarrow> string" where
  "stripScheme s =
     (if take 8 s = ''https://'' then drop 8 s
      else if take 7 s = ''http://'' then drop 7 s
      else s)"

definition addTrustedDomain :: "string \<Rightarrow> string list \<Rightarrow> string list" where
  "addTrustedDomain domain domains =
     (let normalizedDomain = stripScheme (toLowerCase domain)
      in if normalizedDomain \<in> set domains then domains else domains @ [normalizedDomain])"

subsection \<open>A small URL class for worked examples\<close>

text \<open>
  What the platform's \<open>URL\<close> class does on strings of the shape \<open>scheme://host/path\<close> with
  an ASCII host and neither credentials nor port: it reads the scheme up to the colon and
  the host up to the next \<open>/\<close>, \<open>?\<close> or \<open>#\<close>, lower-cases both, and prints an empty path as
  \<open>/\<close>. Anything else is refused here. The general theorems do not depend on it; it serves
  to run the validator on the example URLs of the specification.
\<close>

datatype SimpleUrl = SimpleUrl (schemeOf: string) (hostOf: string) (restOf: string)

definition simpleNewURL :: "string \<Rightarrow> SimpleUrl option" where
  "simpleNewURL s =
     (let scheme = takeWhile (\<lambda>c. c \<noteq> CHR '':'') s;
          afterScheme = drop (length scheme) s;
          afterSlashes = drop 3 afterScheme;
          host = takeWhile (\<lambda>c. c \<notin> set [CHR ''/'', CHR ''?'', CHR ''#'']) afterSlashes;
          rest = drop (length host) afterSlashes
      in if scheme = [] \<or> take 3 afterScheme \<noteq> ''://'' \<or> host = [] then None
         else Some (SimpleUrl (toLowerCase scheme @ '':'') (toLowerCase host)
                      (if rest = [] then ''/'' else rest)))"

definition simpleUrlApi :: "SimpleUrl UrlApi" where
  "simpleUrlApi =
     \<lparr>newURL = simpleNewURL,
      protocol = schemeOf,
      hostname = hostOf,
      setProtocol = (\<lambda>p u. SimpleUrl p (hostOf u) (restOf u)),
      href = (\<lambda>u. schemeOf u @ ''//'' @ hostOf u @ restOf u)\<rparr>"

section \<open>server/middleware/rate-limit.ts\<close>

text \<open>
  Times are \<open>Date.now()\<close> values: whole milliseconds, far below \<open>2\<^sup>5\<^sup>3\<close>, so the
  arithmetic of the source is exact integer arithmetic. \<open>Math.ceil(a / 1000)\<close> on such
  values is the integer ceiling.
\<close>

definition ceilDiv :: "int \<Rightarrow> int \<Rightarrow> int" where
  "ceilDiv a b = - ((- a) div b)"

record RateLimitEntry =
  count :: nat
  resetTime :: int

text \<open>
  \<open>rateLimitStore\<close> is one module-level object shared by every middleware that
  \<open>rateLimit\<close> builds. Its keys are the strings \<open>keyGenerator(req)\<close> returns (a user id or
  an address): the name of the limiter is not part of the key.
\<close>

type_synonym RateLimitStore = "string \<rightharpoonup> RateLimitEntry"

text \<open>
  \<open>maxRequests\<close> is a number of requests and \<open>windowSeconds\<close> a duration, both natural
  numbers in every limiter the module exports. \<open>keyGenerator\<close> and \<open>skip\<close> are functions of
  the request; the model takes their results for the request at hand.
\<close>

record RateLimitOptions =
  maxRequests :: nat
  windowSeconds :: nat
  customMessage :: "string option"

record RateLimitHeaders =
  xRateLimitLimit :: nat
  xRateLimitRemaining :: int
  xRateLimitReset :: int
  retryAfterHeader :: "int option"

text \<open>
  What the middleware does with the request: \<open>next()\<close> without touching the store,
  \<open>next()\<close> after counting, or \<open>res.status(status).json({message, retryAfter})\<close>.
\<close>

datatype RateLimitReply =
    Skipped
  | Admitted RateLimitHeaders
  | Rejected RateLimitHeaders nat string int

text \<open>
  Lines 78 to 85: the entry the request is counted in. A missing entry, or one whose
  \<open>resetTime\<close> is strictly before \<open>now\<close>, is replaced by a new window starting at zero.
\<close>

definition currentWindow :: "RateLimitStore \<Rightarrow> string \<Rightarrow> int \<Rightarrow> int \<Rightarrow> RateLimitEntry" where
  "currentWindow store key now windowMs =
     (case store key of
        None \<Rightarrow> \<lparr>count = 0, resetTime = now + windowMs\<rparr>
      | Some entry \<Rightarrow>
          if resetTime entry < now then \<lparr>count = 0, resetTime = now + windowMs\<rparr> else entry)"

definition rateLimit ::
  "RateLimitOptions \<Rightarrow> bool \<Rightarrow> string \<Rightarrow> int \<Rightarrow> RateLimitStore \<Rightarrow> RateLimitReply \<times> RateLimitStore" where
  "rateLimit options skipRequest key now store =
     (if skipRequest then (Skipped, store)
      else
        let windowMs = int (windowSeconds options) * 1000;
            window = currentWindow store key now windowMs;
            entry = window\<lparr>count := count window + 1\<rparr>;
            store' = store(key \<mapsto> entry);
            headers = \<lparr>xRateLimitLimit = maxRequests options,
                       xRateLimitRemaining = max 0 (int (maxRequests options) - int (count entry)),
                       xRateLimitReset = ceilDiv (resetTime entry) 1000,
                       retryAfterHeader = None\<rparr>
        in if count entry > maxRequests options
           then
             let retryAfter = ceilDiv (resetTime entry - now) 1000;
                 errorText =
                   (case customMessage options of
                      None \<Rightarrow> ''Rate limit exceeded. Please try again in '' @
                              intToString retryAfter @ '' seconds.''
                    | Some custom \<Rightarrow>
                        if custom \<noteq> [] then custom
                        else ''Rate limit exceeded. Please try again in '' @
                             intToString retryAfter @ '' seconds.'')
             in (Rejected (headers\<lparr>retryAfterHeader := Some retryAfter\<rparr>) 429 errorText
                   retryAfter,
                 store')
           else (Admitted headers, store'))"

text \<open>The sweep that \<open>setInterval\<close> runs every ten minutes.\<close>

definition cleanup :: "int \<Rightarrow> RateLimitStore \<Rightarrow> RateLimitStore" where
  "cleanup now store =
     (\<lambda>key. case store key of
              None \<Rightarrow> None
            | Some entry \<Rightarrow> if resetTime entry < now then None else Some entry)"

text \<open>The four limiters the module exports.\<close>

definition aiGenerationRateLimit :: RateLimitOptions where
  "aiGenerationRateLimit =
     \<lparr>maxRequests = 10, windowSeconds = 60,
      customMessage =
        Some ''Too many AI generation requests. Please wait before generating more content.''\<rparr>"

definition presentationCreationRateLimit :: RateLimitOptions where
  "presentationCreationRateLimit =
     \<lparr>maxRequests = 5, windowSeconds = 300,
      customMessage = Some ''Too many presentations created. Please wait before creating more.''\<rparr>"

definition imageSearchRateLimit :: RateLimitOptions where
  "imageSearchRateLimit =
     \<lparr>maxRequests = 30, windowSeconds = 60,
      customMessage = Some ''Too many image searches. Please wait before searching again.''\<rparr>"

definition generalApiRateLimit :: RateLimitOptions where
  "generalApiRateLimit =
     \<lparr>maxRequests = 100, windowSeconds = 60,
      customMessage = Some ''Too many requests. Please slow down.''\<rparr>"

subsection \<open>Observing the limiter\<close>


text \<open>The status and the \<open>retryAfter\<close> of a rejection.\<close>

fun rejection :: "RateLimitReply \<Rightarrow> (nat \<times> int) option" where
  "rejection (Rejected headers status errorText retryAfter) = Some (status, retryAfter)"
| "rejection reply = None"


text \<open>
  Any sequence of requests, each through its own limiter: the store before the first
  request and after each one, and the replies.
\<close>

record RateLimitRequest =
  via :: RateLimitOptions
  skipped :: bool
  identity :: string
  arrival :: int

fun storesDuring :: "RateLimitRequest list \<Rightarrow> RateLimitStore \<Rightarrow> RateLimitStore list" where
  "storesDuring [] store = [store]"
| "storesDuring (request # rest) store =
     store # storesDuring rest
       (snd (rateLimit (via request) (skipped request) (identity request) (arrival request) store))"

fun repliesDuring :: "RateLimitRequest list \<Rightarrow> RateLimitStore \<Rightarrow> RateLimitReply list" where
  "repliesDuring [] store = []"
| "repliesDuring (request # rest) store =
     fst (rateLimit (via request) (skipped request) (identity request) (arrival request) store)
     # repliesDuring rest
         (snd (rateLimit (via request) (skipped request) (identity request) (arrival request) store))"

section \<open>server/utils/token-manager.ts\<close>

text \<open>
  The fields of \<open>Profile\<close> that the pipeline reads. \<open>googleTokenExpiry\<close> is a \<open>Date\<close>, kept
  as its time value in milliseconds.
\<close>

record Profile =
  profileId :: string
  googleAccessToken :: "string option"
  googleRefreshToken :: "string option"
  googleTokenExpiry :: "int option"

text \<open>\<open>needsTokenRefresh\<close>, with \<open>new Date()\<close> as the argument \<open>now\<close>.\<close>

definition needsTokenRefresh :: "int \<Rightarrow> int option \<Rightarrow> bool" where
  "needsTokenRefresh now tokenExpiry =
     (case tokenExpiry of
        None \<Rightarrow> False
      | Some expiryTime \<Rightarrow> expiryTime \<le> now + 5 * 60 * 1000)"

text \<open>The credentials object of the OAuth2 client, and of the provider's reply.\<close>

record Credentials =
  access_token :: "string option"
  refresh_token :: "string option"
  expiry_date :: "int option"

subsection \<open>refreshGoogleToken, step by step\<close>

text \<open>
  The server runs one thread. An \<open>async\<close> function runs without interruption until it
  reaches an \<open>await\<close>, and goes on when the awaited promise has settled; in between, other
  requests run. The model therefore has one step for each uninterrupted piece of
  \<open>refreshGoogleToken\<close>, and the state holds everything the pieces share: the map
  \<open>refreshLocks\<close>, the promises stored in it, the stored profiles, and a log of the calls
  made to the provider's \<open>refreshAccessToken\<close>.

  A promise is known by its number. The promise a lock holds is the one of the inner
  \<open>async\<close> function (lines 37 to 58), called the refresher below.
\<close>

datatype promiseState = Pending | Fulfilled | Rejected

text \<open>
  Where the refresher is waiting: for the provider (line 39, with the \<open>user\<close> it was started
  for) or for the store (line 42, with the credentials it received).
\<close>

datatype refresherState =
    AwaitingProvider Profile
  | AwaitingUpdate Profile Credentials


text \<open>
  Where a call of \<open>refreshGoogleToken\<close> is: waiting for the promise of a refresh (its
  own in line 64, or the one it found in line 27), waiting for \<open>getProfileById\<close> (lines
  29 and 67), or finished. After the first \<open>await\<close> both branches of the function do the
  same.
\<close>

datatype callerState =
    AwaitingPromise nat string
  | AwaitingProfile string
  | Returned Profile
  | Threw js_error

record TokenManager =
  refreshLocks :: "string \<rightharpoonup> nat"
  promises :: "promiseState list"
  refreshers :: "nat \<rightharpoonup> refresherState"
  callers :: "nat \<rightharpoonup> callerState"
  profiles :: "string \<rightharpoonup> Profile"
  refreshCalls :: "string list"

definition initialState :: "(string \<rightharpoonup> Profile) \<Rightarrow> TokenManager" where
  "initialState stored =
     \<lparr>refreshLocks = Map.empty, promises = [], refreshers = Map.empty, callers = Map.empty,
      profiles = stored, refreshCalls = []\<rparr>"

text \<open>
  What can happen: a request calls \<open>refreshGoogleToken(user, client)\<close>; the provider
  answers a refresher (with credentials, or the call throws); the store answers a refresher's
  \<open>updateProfile\<close> (resolved or rejected); a caller goes on after the promise it awaits
  has settled; the store answers a caller's \<open>getProfileById\<close> (resolved, or rejected with
  an error).
\<close>

datatype event =
    Invoke nat Profile
  | ProviderReplied nat "js_error + Credentials"
  | ProfileUpdated nat bool
  | Resumed nat
  | ProfileFetched nat "js_error option"

text \<open>
  Modelled from the spec: \<open>storage.updateProfile\<close> is not among the sources. The store
  keeps one profile per principal and the refresh writes the new access token and expiry
  into it; a principal without a stored profile stays without one.
\<close>

definition updateProfile ::
  "string \<Rightarrow> string option \<Rightarrow> int option \<Rightarrow> (string \<rightharpoonup> Profile) \<Rightarrow> (string \<rightharpoonup> Profile)" where
  "updateProfile userId accessToken tokenExpiry stored =
     (case stored userId of
        None \<Rightarrow> stored
      | Some profile \<Rightarrow>
          stored(userId \<mapsto>
            profile\<lparr>googleAccessToken := accessToken, googleTokenExpiry := tokenExpiry\<rparr>))"

text \<open>
  Lines 43 to 46: \<open>credentials.access_token || user.googleAccessToken\<close>, and the expiry
  date if the reply has one (a date of 0 is falsy).
\<close>

definition newAccessToken :: "Profile \<Rightarrow> Credentials \<Rightarrow> string option" where
  "newAccessToken user credentials =
     (if truthy (access_token credentials) then access_token credentials
      else googleAccessToken user)"

definition newTokenExpiry :: "Profile \<Rightarrow> Credentials \<Rightarrow> int option" where
  "newTokenExpiry user credentials =
     (case expiry_date credentials of
        None \<Rightarrow> googleTokenExpiry user
      | Some date \<Rightarrow> if date \<noteq> 0 then Some date else googleTokenExpiry user)"

text \<open>
  The end of the refresher: the \<open>finally\<close> deletes the lock of the user, and the promise
  settles. Both happen in one uninterrupted piece.
\<close>

definition settle :: "nat \<Rightarrow> promiseState \<Rightarrow> Profile \<Rightarrow> TokenManager \<Rightarrow> TokenManager" where
  "settle p outcome user s =
     s\<lparr>refreshers := (refreshers s)(p := None),
       refreshLocks := (refreshLocks s)(profileId user := None),
       promises := (promises s)[p := outcome]\<rparr>"

fun step :: "event \<Rightarrow> TokenManager \<Rightarrow> TokenManager option" where
  "step (Invoke c user) s =
     (if callers s c \<noteq> None then None
      else
        (case refreshLocks s (profileId user) of
           Some existingLock \<Rightarrow>
             Some (s\<lparr>callers := (callers s)(c \<mapsto> AwaitingPromise existingLock (profileId user))\<rparr>)
         | None \<Rightarrow>
             let refreshPromise = length (promises s)
             in Some (s\<lparr>promises := promises s @ [Pending],
                        refreshers := (refreshers s)(refreshPromise \<mapsto> AwaitingProvider user),
                        refreshCalls := refreshCalls s @ [profileId user],
                        refreshLocks := (refreshLocks s)(profileId user \<mapsto> refreshPromise),
                        callers :=
                          (callers s)(c \<mapsto> AwaitingPromise refreshPromise (profileId user))\<rparr>)))"
| "step (ProviderReplied p reply) s =
     (case refreshers s p of
        Some (AwaitingProvider user) \<Rightarrow>
          (case reply of
             Inr credentials \<Rightarrow>
               Some (s\<lparr>refreshers := (refreshers s)(p \<mapsto> AwaitingUpdate user credentials)\<rparr>)
           | Inl thrown \<Rightarrow> Some (settle p Rejected user s))
      | Some (AwaitingUpdate user credentials) \<Rightarrow> None
      | None \<Rightarrow> None)"
| "step (ProfileUpdated p resolved) s =
     (case refreshers s p of
        Some (AwaitingUpdate user credentials) \<Rightarrow>
          if resolved
          then Some (settle p Fulfilled user
                 (s\<lparr>profiles :=
                      updateProfile (profileId user) (newAccessToken user credentials)
                        (newTokenExpiry user credentials) (profiles s)\<rparr>))
          else Some (settle p Rejected user s)
      | Some (AwaitingProvider user) \<Rightarrow> None
      | None \<Rightarrow> None)"
| "step (Resumed c) s =
     (case callers s c of
        Some (AwaitingPromise p userId) \<Rightarrow>
          if p < length (promises s)
          then
            (case promises s ! p of
               Pending \<Rightarrow> None
             | Fulfilled \<Rightarrow> Some (s\<lparr>callers := (callers s)(c \<mapsto> AwaitingProfile userId)\<rparr>)
             | Rejected \<Rightarrow>
                 Some (s\<lparr>callers :=
                          (callers s)(c \<mapsto> Threw (PresentationError TokenRefreshError))\<rparr>))
          else None
      | Some (AwaitingProfile userId) \<Rightarrow> None
      | Some (Returned profile) \<Rightarrow> None
      | Some (Threw thrown) \<Rightarrow> None
      | None \<Rightarrow> None)"
| "step (ProfileFetched c reply) s =
     (case callers s c of
        Some (AwaitingProfile userId) \<Rightarrow>
          (case reply of
             Some thrown \<Rightarrow> Some (s\<lparr>callers := (callers s)(c \<mapsto> Threw thrown)\<rparr>)
           | None \<Rightarrow>
               (case profiles s userId of
                  None \<Rightarrow>
                    Some (s\<lparr>callers :=
                             (callers s)(c \<mapsto> Threw (Error ''User not found after token refresh''))\<rparr>)
                | Some updatedUser \<Rightarrow>
                    Some (s\<lparr>callers := (callers s)(c \<mapsto> Returned updatedUser)\<rparr>)))
      | Some (AwaitingPromise p userId) \<Rightarrow> None
      | Some (Returned profile) \<Rightarrow> None
      | Some (Threw thrown) \<Rightarrow> None
      | None \<Rightarrow> None)"

text \<open>A sequence of events, from a state: \<open>None\<close> when one of them cannot happen.\<close>

fun runEvents :: "event list \<Rightarrow> TokenManager \<Rightarrow> TokenManager option" where
  "runEvents [] s = Some s"
| "runEvents (e # es) s = (case step e s of None \<Rightarrow> None | Some s' \<Rightarrow> runEvents es s')"




section \<open>server/presentation.ts: slide content and the complexity check\<close>

datatype slideKind = title_slide | content_slide | image_slide | questions_slide

record SlideContent =
  slideType :: slideKind
  title :: "string option"
  subtitle :: "string option"
  bodyText :: "string option"
  bulletPoints :: "string list option"
  imageUrl :: "string option"
  imageAlt :: "string option"
  imageAttribution :: "string option"
  questions :: "string list option"
  slideNotes :: "string option"

text \<open>
  The body of the \<open>forEach\<close> callback of \<open>validateSlideContent\<close>: one request for the
  slide, three for each text field that is present, one for the image, one for the notes.
\<close>

definition requestCount :: "SlideContent \<Rightarrow> nat" where
  "requestCount content =
     1 + (if truthy (title content) then 3 else 0)
       + (if truthy (subtitle content) then 3 else 0)
       + (if truthy (bodyText content) then 3 else 0)
       + (if nonEmptyArray (bulletPoints content) then 3 else 0)
       + (if nonEmptyArray (questions content) then 3 else 0)
       + (if truthy (imageUrl content) then 1 else 0)
       + (if truthy (slideNotes content) then 1 else 0)"

text \<open>
  \<open>validateSlideContent\<close> walks the slides in order and throws at the first slide whose
  estimate is over twice the ceiling. The ceiling is the named constant
  \<open>MAX_REQUESTS_PER_SLIDE\<close>; \<open>validateSlideContentWith\<close> takes it as an argument so that
  the throwing branch can be studied for any configured value, and
  \<open>validateSlideContent\<close> is the function as shipped.
\<close>

fun validateSlideContentFrom :: "nat \<Rightarrow> nat \<Rightarrow> SlideContent list \<Rightarrow> presentation_error + unit" where
  "validateSlideContentFrom ceiling index [] = Inr ()"
| "validateSlideContentFrom ceiling index (content # rest) =
     (if requestCount content > ceiling * 2
      then Inl (BatchSizeExceededError index (requestCount content))
      else validateSlideContentFrom ceiling (Suc index) rest)"

definition validateSlideContentWith :: "nat \<Rightarrow> SlideContent list \<Rightarrow> presentation_error + unit" where
  "validateSlideContentWith ceiling slideContents = validateSlideContentFrom ceiling 0 slideContents"

definition validateSlideContent :: "SlideContent list \<Rightarrow> presentation_error + unit" where
  "validateSlideContent slideContents = validateSlideContentWith MAX_REQUESTS_PER_SLIDE slideContents"

section \<open>server/presentation.ts: compiling slides into requests\<close>

text \<open>The request bodies of the Slides API that the compiler builds.\<close>

datatype dimension = Dimension (magnitude: nat) (unitOf: string)

datatype sizeProperties = Size (heightOf: dimension) (widthOf: dimension)

datatype affineTransform =
  Transform (scaleX: nat) (scaleY: nat) (translateX: nat) (translateY: nat) (transformUnit: string)

datatype elementProperties =
  ElementProperties (pageObjectId: string) (elementSize: sizeProperties)
    (elementTransform: affineTransform)

datatype textStyle =
  TextStyle (fontSize: dimension) (bold: "bool option") (foregroundColor: "rgbColor option")

datatype request =
    CreateSlide string nat string
  | CreateShape string string elementProperties
  | InsertText string string
  | UpdateTextStyle string textStyle string
  | CreateImage string elementProperties
  | DeleteObject string

text \<open>The value of a field that the surrounding \<open>if\<close> has found present.\<close>

definition stringOf :: "string option \<Rightarrow> string" where
  "stringOf v = (case v of None \<Rightarrow> [] | Some s \<Rightarrow> s)"

definition arrayOf :: "'a list option \<Rightarrow> 'a list" where
  "arrayOf v = (case v of None \<Rightarrow> [] | Some xs \<Rightarrow> xs)"

text \<open>
  The prefix of a bullet line, byte for byte as line 356 of the source file stores it in
  UTF-8 (three characters and a space).
\<close>

definition bulletPrefix :: string where
  "bulletPrefix = [CHR 0xC3, CHR 0xA2, CHR 0xE2, CHR 0x82, CHR 0xAC, CHR 0xC2, CHR 0xA2, CHR '' '']"

text \<open>
  \<open>createSlideRequests\<close> pushes onto a local array, block after block: the slide; then
  title, subtitle, text, bullet points and questions, three requests each when the field is
  present; then the image. Each block of the source is one definition below, holding the
  requests that block pushes.
\<close>

definition contentYPosition :: "SlideContent \<Rightarrow> nat" where
  "contentYPosition content =
     (if truthy (title content) then CONTENT_POSITION_WITH_TITLE_Y_EMU
      else CONTENT_POSITION_NO_TITLE_Y_EMU)"

definition titleRequests :: "SlideContent \<Rightarrow> nat \<Rightarrow> themeColors option \<Rightarrow> request list" where
  "titleRequests content index theme =
     (if truthy (title content)
      then
        let slideId = ''slide_'' @ numberToString index;
            titleBoxId = ''title_'' @ numberToString index
        in [CreateShape titleBoxId ''TEXT_BOX''
              (ElementProperties slideId
                 (Size (Dimension TITLE_BOX_HEIGHT_EMU ''EMU'')
                       (Dimension TITLE_BOX_WIDTH_EMU ''EMU''))
                 (Transform 1 1 TITLE_POSITION_X_EMU TITLE_POSITION_Y_EMU ''EMU'')),
            InsertText titleBoxId (stringOf (title content)),
            UpdateTextStyle titleBoxId
              (TextStyle (Dimension FONT_SIZE_TITLE_PT ''PT'') (Some True)
                 (map_option primary theme))
              (if theme \<noteq> None then ''fontSize,bold,foregroundColor'' else ''fontSize,bold'')]
      else [])"

definition subtitleRequests :: "SlideContent \<Rightarrow> nat \<Rightarrow> themeColors option \<Rightarrow> request list" where
  "subtitleRequests content index theme =
     (if truthy (subtitle content)
      then
        let slideId = ''slide_'' @ numberToString index;
            subtitleBoxId = ''subtitle_'' @ numberToString index
        in [CreateShape subtitleBoxId ''TEXT_BOX''
              (ElementProperties slideId
                 (Size (Dimension SUBTITLE_BOX_HEIGHT_EMU ''EMU'')
                       (Dimension TITLE_BOX_WIDTH_EMU ''EMU''))
                 (Transform 1 1 TITLE_POSITION_X_EMU SUBTITLE_POSITION_Y_EMU ''EMU'')),
            InsertText subtitleBoxId (stringOf (subtitle content)),
            UpdateTextStyle subtitleBoxId
              (TextStyle (Dimension FONT_SIZE_SUBTITLE_PT ''PT'') None
                 (map_option secondary theme))
              (if theme \<noteq> None then ''fontSize,foregroundColor'' else ''fontSize'')]
      else [])"

definition textRequests :: "SlideContent \<Rightarrow> nat \<Rightarrow> request list" where
  "textRequests content index =
     (if truthy (bodyText content)
      then
        let slideId = ''slide_'' @ numberToString index;
            textBoxId = ''text_'' @ numberToString index;
            yPosition = contentYPosition content
        in [CreateShape textBoxId ''TEXT_BOX''
              (ElementProperties slideId
                 (Size (Dimension CONTENT_BOX_HEIGHT_EMU ''EMU'')
                       (Dimension CONTENT_BOX_WIDTH_EMU ''EMU''))
                 (Transform 1 1 TITLE_POSITION_X_EMU yPosition ''EMU'')),
            InsertText textBoxId (stringOf (bodyText content)),
            UpdateTextStyle textBoxId
              (TextStyle (Dimension FONT_SIZE_BODY_PT ''PT'') None None) ''fontSize'']
      else [])"

definition bulletRequests :: "SlideContent \<Rightarrow> nat \<Rightarrow> request list" where
  "bulletRequests content index =
     (if nonEmptyArray (bulletPoints content)
      then
        let slideId = ''slide_'' @ numberToString index;
            bulletBoxId = ''bullets_'' @ numberToString index;
            yPosition = contentYPosition content;
            bulletText =
              join [CHR 0x0A]
                (map (\<lambda>point. bulletPrefix @ point) (arrayOf (bulletPoints content)))
        in [CreateShape bulletBoxId ''TEXT_BOX''
              (ElementProperties slideId
                 (Size (Dimension BULLET_BOX_HEIGHT_EMU ''EMU'')
                       (Dimension CONTENT_BOX_WIDTH_EMU ''EMU''))
                 (Transform 1 1 TITLE_POSITION_X_EMU yPosition ''EMU'')),
            InsertText bulletBoxId bulletText,
            UpdateTextStyle bulletBoxId
              (TextStyle (Dimension FONT_SIZE_BULLETS_PT ''PT'') None None) ''fontSize'']
      else [])"

definition questionRequests :: "SlideContent \<Rightarrow> nat \<Rightarrow> request list" where
  "questionRequests content index =
     (if nonEmptyArray (questions content)
      then
        let slideId = ''slide_'' @ numberToString index;
            questionsBoxId = ''questions_'' @ numberToString index;
            yPosition = contentYPosition content;
            questionsText =
              join [CHR 0x0A, CHR 0x0A]
                (mapIndexed (\<lambda>q i. numberToString (i + 1) @ ''. '' @ q) 0
                   (arrayOf (questions content)))
        in [CreateShape questionsBoxId ''TEXT_BOX''
              (ElementProperties slideId
                 (Size (Dimension QUESTIONS_BOX_HEIGHT_EMU ''EMU'')
                       (Dimension CONTENT_BOX_WIDTH_EMU ''EMU''))
                 (Transform 1 1 TITLE_POSITION_X_EMU yPosition ''EMU'')),
            InsertText questionsBoxId questionsText,
            UpdateTextStyle questionsBoxId
              (TextStyle (Dimension FONT_SIZE_QUESTIONS_PT ''PT'') None None) ''fontSize'']
      else [])"

text \<open>
  The only \<open>throw\<close> of \<open>createSlideRequests\<close> sits in the \<open>catch\<close> around the \<open>push\<close>
  of the image request. Pushing an object literal cannot fail, so the block always
  succeeds; the sum type keeps the shape of the source.
\<close>

definition imageRequests :: "SlideContent \<Rightarrow> nat \<Rightarrow> presentation_error + request list" where
  "imageRequests content index =
     (if truthy (imageUrl content)
      then
        let slideId = ''slide_'' @ numberToString index
        in Inr [CreateImage (stringOf (imageUrl content))
                  (ElementProperties slideId
                     (Size (Dimension DEFAULT_IMAGE_HEIGHT_EMU ''EMU'')
                           (Dimension DEFAULT_IMAGE_WIDTH_EMU ''EMU''))
                     (Transform 1 1 IMAGE_POSITION_X_EMU IMAGE_POSITION_Y_EMU ''EMU''))]
      else Inr [])"

definition createSlideRequests ::
  "SlideContent \<Rightarrow> nat \<Rightarrow> ColorTheme option \<Rightarrow> presentation_error + request list" where
  "createSlideRequests content index colorTheme =
     (let slideId = ''slide_'' @ numberToString index;
          theme = map_option COLOR_THEMES colorTheme;
          requests =
            [CreateSlide slideId index ''BLANK'']
            @ titleRequests content index theme
            @ subtitleRequests content index theme
            @ textRequests content index
            @ bulletRequests content index
            @ questionRequests content index
      in case imageRequests content index of
           Inl thrown \<Rightarrow> Inl thrown
         | Inr pushed \<Rightarrow> Inr (requests @ pushed))"

section \<open>server/presentation.ts: validating the images\<close>

text \<open>
  The callback of \<open>validateSlideImages\<close>. A slide without an image is returned as it is.
  Otherwise the URL is validated; when \<open>validateImageUrl\<close> throws, the \<open>catch\<close> writes to
  \<open>console.error\<close> and returns the slide with \<open>imageUrl: undefined\<close>. Nothing else
  leaves the function: it has no access to the list of warnings. (The check with
  \<open>isPublicUrl\<close> only decides whether a line is written to the console.)
\<close>

definition validateSlideImage :: "'u UrlApi \<Rightarrow> string list \<Rightarrow> bool \<Rightarrow> SlideContent \<Rightarrow> SlideContent" where
  "validateSlideImage api domains allowUntrusted slide =
     (if \<not> truthy (imageUrl slide) then slide
      else
        (case validateImageUrl api domains (imageUrl slide) allowUntrusted of
           Inr validatedUrl \<Rightarrow> slide\<lparr>imageUrl := validatedUrl\<rparr>
         | Inl thrown \<Rightarrow> slide\<lparr>imageUrl := None\<rparr>))"

definition validateSlideImages ::
  "'u UrlApi \<Rightarrow> string list \<Rightarrow> SlideContent list \<Rightarrow> bool \<Rightarrow> SlideContent list" where
  "validateSlideImages api domains slideContents allowUntrusted =
     map (validateSlideImage api domains allowUntrusted) slideContents"

section \<open>server/presentation.ts: the remote services\<close>

text \<open>What \<open>slides.presentations.get\<close> returns, as far as the pipeline reads it.\<close>

datatype pageElement = PageElement (elementObjectId: "string option") (placeholderType: "string option")

datatype notesPage =
  NotesPage (notesPageObjectId: "string option") (pageElements: "pageElement list option")

datatype page = Page (objectId: "string option") (notesPageOf: "notesPage option")

type_synonym presentation = "page list option"

text \<open>
  Every \<open>await\<close> of the pipeline is a call to a remote service. A run keeps the list of
  the calls it has made, in order. What a service answers is not the repository's to
  decide: the \<open>World\<close> gives the answer to each call, and may let it depend on everything
  that was called before. \<open>awaitRefreshGoogleToken\<close> is the settled result of
  \<open>refreshGoogleToken\<close>, whose own steps are modelled with the token manager.
\<close>

datatype apiCall =
    RefreshGoogleToken Profile
  | PresentationsGet Credentials string
  | PresentationsBatchUpdate Credentials string "request list"

record World =
  clock :: int
  awaitRefreshGoogleToken :: "apiCall list \<Rightarrow> Profile \<Rightarrow> js_error + Profile"
  presentationsGet :: "apiCall list \<Rightarrow> Credentials \<Rightarrow> string \<Rightarrow> js_error + presentation"
  presentationsBatchUpdate ::
    "apiCall list \<Rightarrow> Credentials \<Rightarrow> string \<Rightarrow> request list \<Rightarrow> js_error option"

definition credentialsOf :: "Profile \<Rightarrow> Credentials" where
  "credentialsOf user =
     \<lparr>access_token = googleAccessToken user,
      refresh_token = googleRefreshToken user,
      expiry_date = googleTokenExpiry user\<rparr>"

definition getOAuth2Client ::
  "World \<Rightarrow> apiCall list \<Rightarrow> Profile \<Rightarrow> (js_error + Credentials \<times> Profile) \<times> apiCall list" where
  "getOAuth2Client world calls user =
     (if \<not> (truthy (googleAccessToken user) \<and> truthy (googleRefreshToken user))
      then (Inl (PresentationError GoogleAuthError), calls)
      else if needsTokenRefresh (clock world) (googleTokenExpiry user)
      then
        (case awaitRefreshGoogleToken world calls user of
           Inl thrown \<Rightarrow>
             (Inl (PresentationError TokenExpiredError), calls @ [RefreshGoogleToken user])
         | Inr updatedUser \<Rightarrow>
             (Inr (credentialsOf updatedUser, updatedUser), calls @ [RefreshGoogleToken user]))
      else (Inr (credentialsOf user, user), calls))"

section \<open>server/presentation.ts: addSlidesToPresentation\<close>

record CreatePresentationOptions =
  colorTheme :: "ColorTheme option"
  allowUntrustedImages :: "bool option"

text \<open>
  The value the function resolves to, and the variables of a run. The local variable
  \<open>successCount\<close> of line 508 counts the batches that went through; the \<open>successCount\<close>
  of the returned object is computed afresh in line 539.
\<close>

record Outcome =
  successCount :: nat
  failedSlides :: "nat list"
  warnings :: "string list"

record RunState = Outcome +
  allRequests :: "request list"
  calls :: "apiCall list"

text \<open>Lines 489 to 498: the \<open>forEach\<close> that compiles the slides, with its \<open>catch\<close>.\<close>

fun compileSlides :: "ColorTheme option \<Rightarrow> nat \<Rightarrow> SlideContent list \<Rightarrow> RunState \<Rightarrow> RunState" where
  "compileSlides chosenTheme index [] run = run"
| "compileSlides chosenTheme index (content # rest) run =
     compileSlides chosenTheme (Suc index) rest
       (case createSlideRequests content index chosenTheme of
          Inr slideRequests \<Rightarrow> run\<lparr>allRequests := allRequests run @ slideRequests\<rparr>
        | Inl thrown \<Rightarrow>
            run\<lparr>failedSlides := failedSlides run @ [index],
                warnings := warnings run @
                  [''Slide '' @ numberToString index @ '': '' @ message thrown]\<rparr>)"

text \<open>Lines 501 to 505: the loop that cuts the requests into batches.\<close>

function batchesFrom :: "nat \<Rightarrow> 'a list \<Rightarrow> 'a list list" where
  "batchesFrom i requests =
     (if i < length requests
      then slice requests i (i + GOOGLE_API_BATCH_SIZE)
           # batchesFrom (i + GOOGLE_API_BATCH_SIZE) requests
      else [])"
  by pat_completeness auto
termination
  by (relation "measure (\<lambda>(i, requests). length requests - i)")
     (auto simp add: GOOGLE_API_BATCH_SIZE_def)

declare batchesFrom.simps [simp del]

text \<open>Lines 508 to 523: the batches are sent one after the other; a failure is caught.\<close>

fun processBatches ::
  "World \<Rightarrow> Credentials \<Rightarrow> string \<Rightarrow> nat \<Rightarrow> request list list \<Rightarrow> RunState \<Rightarrow> RunState" where
  "processBatches world auth presentationId i [] run = run"
| "processBatches world auth presentationId i (batch # rest) run =
     processBatches world auth presentationId (Suc i) rest
       (case presentationsBatchUpdate world (calls run) auth presentationId batch of
          None \<Rightarrow>
            run\<lparr>successCount := successCount run + 1,
                calls := calls run @ [PresentationsBatchUpdate auth presentationId batch]\<rparr>
        | Some thrown \<Rightarrow>
            run\<lparr>warnings := warnings run @
                  [''Batch '' @ numberToString i @ '' failed: '' @ errorMessage thrown],
                calls := calls run @ [PresentationsBatchUpdate auth presentationId batch]\<rparr>)"

text \<open>\<open>addSpeakerNotes\<close>: the body of its \<open>try\<close>, then the \<open>catch\<close> that rethrows.\<close>

definition findSlide :: "presentation \<Rightarrow> string \<Rightarrow> page option" where
  "findSlide slides slideId =
     (case slides of
        None \<Rightarrow> None
      | Some pages \<Rightarrow> find (\<lambda>s. objectId s = Some slideId) pages)"

definition findNotesShape :: "notesPage \<Rightarrow> pageElement option" where
  "findNotesShape notes =
     (case pageElements notes of
        None \<Rightarrow> None
      | Some elements \<Rightarrow> find (\<lambda>el. placeholderType el = Some ''BODY'') elements)"

definition tryAddSpeakerNotes ::
  "World \<Rightarrow> apiCall list \<Rightarrow> Credentials \<Rightarrow> string \<Rightarrow> string \<Rightarrow> string
     \<Rightarrow> (js_error + unit) \<times> apiCall list" where
  "tryAddSpeakerNotes world calls0 auth presentationId slideId notesText =
     (let calls1 = calls0 @ [PresentationsGet auth presentationId]
      in case presentationsGet world calls0 auth presentationId of
           Inl thrown \<Rightarrow> (Inl thrown, calls1)
         | Inr slides \<Rightarrow>
             (case findSlide slides slideId of
                None \<Rightarrow> (Inl (Error ''Notes page not found''), calls1)
              | Some slide \<Rightarrow>
                  (case notesPageOf slide of
                     None \<Rightarrow> (Inl (Error ''Notes page not found''), calls1)
                   | Some notes \<Rightarrow>
                       if \<not> truthy (notesPageObjectId notes)
                       then (Inl (Error ''Notes page ID not available''), calls1)
                       else
                         (case findNotesShape notes of
                            None \<Rightarrow> (Inl (Error ''Notes shape not found''), calls1)
                          | Some notesShape \<Rightarrow>
                              if \<not> truthy (elementObjectId notesShape)
                              then (Inl (Error ''Notes shape not found''), calls1)
                              else
                                let update =
                                      [InsertText (stringOf (elementObjectId notesShape)) notesText];
                                    calls2 =
                                      calls1 @ [PresentationsBatchUpdate auth presentationId update]
                                in (case presentationsBatchUpdate world calls1 auth presentationId
                                           update of
                                      Some thrown \<Rightarrow> (Inl thrown, calls2)
                                    | None \<Rightarrow> (Inr (), calls2))))))"

definition addSpeakerNotes ::
  "World \<Rightarrow> apiCall list \<Rightarrow> Credentials \<Rightarrow> string \<Rightarrow> string \<Rightarrow> string
     \<Rightarrow> (presentation_error + unit) \<times> apiCall list" where
  "addSpeakerNotes world calls0 auth presentationId slideId notesText =
     (case tryAddSpeakerNotes world calls0 auth presentationId slideId notesText of
        (Inr ok, calls1) \<Rightarrow> (Inr ok, calls1)
      | (Inl thrown, calls1) \<Rightarrow>
          (Inl (SpeakerNotesError (parseInt (replaceFirst ''slide_'' [] slideId))), calls1))"

text \<open>Lines 526 to 536: the speaker notes, slide by slide; a failure is caught.\<close>

fun attachSpeakerNotes ::
  "World \<Rightarrow> Credentials \<Rightarrow> string \<Rightarrow> nat \<Rightarrow> SlideContent list \<Rightarrow> RunState \<Rightarrow> RunState" where
  "attachSpeakerNotes world auth presentationId i [] run = run"
| "attachSpeakerNotes world auth presentationId i (content # rest) run =
     attachSpeakerNotes world auth presentationId (Suc i) rest
       (if truthy (slideNotes content)
        then
          (case addSpeakerNotes world (calls run) auth presentationId
                  (''slide_'' @ numberToString i) (stringOf (slideNotes content)) of
             (Inr ok, calls1) \<Rightarrow> run\<lparr>calls := calls1\<rparr>
           | (Inl thrown, calls1) \<Rightarrow>
               run\<lparr>warnings := warnings run @
                     [''Slide '' @ numberToString i @ '': Speaker notes could not be added''],
                   calls := calls1\<rparr>)
        else run)"

definition firstSlideId :: "presentation \<Rightarrow> string option" where
  "firstSlideId slides =
     (case slides of
        None \<Rightarrow> None
      | Some [] \<Rightarrow> None
      | Some (first # others) \<Rightarrow> objectId first)"

text \<open>
  The run from the compilation to the end of the batches, and then the notes: the two
  halves of lines 477 to 536, so that the state between them can be named.
\<close>

definition compileAndSubmit ::
  "World \<Rightarrow> Credentials \<Rightarrow> string \<Rightarrow> presentation \<Rightarrow> SlideContent list
     \<Rightarrow> CreatePresentationOptions \<Rightarrow> apiCall list \<Rightarrow> RunState" where
  "compileAndSubmit world auth presentationId slides validatedSlides options calls0 =
     (let start =
            \<lparr>successCount = 0, failedSlides = [], warnings = [],
             allRequests =
               (if truthy (firstSlideId slides) then [DeleteObject (stringOf (firstSlideId slides))]
                else []),
             calls = calls0\<rparr>;
          compiled = compileSlides (colorTheme options) 0 validatedSlides start;
          batches = batchesFrom 0 (allRequests compiled)
      in processBatches world auth presentationId 0 batches compiled)"

definition outcomeOf :: "SlideContent list \<Rightarrow> RunState \<Rightarrow> Outcome" where
  "outcomeOf validatedSlides run =
     \<lparr>successCount = length validatedSlides - length (failedSlides run),
      failedSlides = failedSlides run,
      warnings = warnings run\<rparr>"

text \<open>
  \<open>addSlidesToPresentationWith\<close> is \<open>addSlidesToPresentation\<close> with the ceiling of the
  complexity check, the \<open>URL\<close> class and the current list of trusted domains as arguments.
  It returns what the promise settles to, and the calls that were made.
\<close>

definition addSlidesToPresentationWith ::
  "nat \<Rightarrow> 'u UrlApi \<Rightarrow> string list \<Rightarrow> World \<Rightarrow> Profile \<Rightarrow> string \<Rightarrow> SlideContent list
     \<Rightarrow> CreatePresentationOptions \<Rightarrow> (js_error + Outcome) \<times> apiCall list" where
  "addSlidesToPresentationWith ceiling api domains world user presentationId slideContents options =
     (case getOAuth2Client world [] user of
        (Inl thrown, calls0) \<Rightarrow> (Inl thrown, calls0)
      | (Inr (auth, updatedUser), calls0) \<Rightarrow>
          (case validateSlideContentWith ceiling slideContents of
             Inl thrown \<Rightarrow> (Inl (PresentationError thrown), calls0)
           | Inr valid \<Rightarrow>
               let validatedSlides =
                     validateSlideImages api domains slideContents
                       (case allowUntrustedImages options of None \<Rightarrow> False | Some allow \<Rightarrow> allow);
                   calls1 = calls0 @ [PresentationsGet auth presentationId]
               in (case presentationsGet world calls0 auth presentationId of
                     Inl thrown \<Rightarrow> (Inl thrown, calls1)
                   | Inr slides \<Rightarrow>
                       let submitted =
                             compileAndSubmit world auth presentationId slides validatedSlides
                               options calls1;
                           finished =
                             attachSpeakerNotes world auth presentationId 0 validatedSlides submitted
                       in (Inr (outcomeOf validatedSlides finished), calls finished))))"

definition addSlidesToPresentation ::
  "'u UrlApi \<Rightarrow> string list \<Rightarrow> World \<Rightarrow> Profile \<Rightarrow> string \<Rightarrow> SlideContent list
     \<Rightarrow> CreatePresentationOptions \<Rightarrow> (js_error + Outcome) \<times> apiCall list" where
  "addSlidesToPresentation api domains world user presentationId slideContents options =
     addSlidesToPresentationWith MAX_REQUESTS_PER_SLIDE api domains world user presentationId
       slideContents options"

section \<open>Observing a run\<close>

text \<open>The object identifiers a request names: its own and the page it is placed on.\<close>

fun requestIds :: "request \<Rightarrow> string list" where
  "requestIds (CreateSlide ident insertionIndex layout) = [ident]"
| "requestIds (CreateShape ident shapeType properties) = [ident, pageObjectId properties]"
| "requestIds (InsertText ident inserted) = [ident]"
| "requestIds (UpdateTextStyle ident style fieldMask) = [ident]"
| "requestIds (CreateImage url properties) = [pageObjectId properties]"
| "requestIds (DeleteObject ident) = [ident]"

definition fieldKinds :: "string list" where
  "fieldKinds = [''slide'', ''title'', ''subtitle'', ''text'', ''bullets'', ''questions'']"

text \<open>
  Whether the batch with index \<open>j\<close> of a list of batches fails, given the calls made before
  the first batch: the answer of the service to that call, after the earlier batches.
\<close>

definition batchFailure ::
  "World \<Rightarrow> Credentials \<Rightarrow> string \<Rightarrow> apiCall list \<Rightarrow> request list list \<Rightarrow> nat \<Rightarrow> js_error option" where
  "batchFailure world auth presentationId before batches j =
     presentationsBatchUpdate world
       (before @ map (PresentationsBatchUpdate auth presentationId) (take j batches))
       auth presentationId (batches ! j)"

definition batchWarnings ::
  "World \<Rightarrow> Credentials \<Rightarrow> string \<Rightarrow> apiCall list \<Rightarrow> request list list \<Rightarrow> string list" where
  "batchWarnings world auth presentationId before batches =
     concat (map (\<lambda>j. case batchFailure world auth presentationId before batches j of
                          None \<Rightarrow> []
                        | Some thrown \<Rightarrow>
                            [''Batch '' @ numberToString j @ '' failed: '' @ errorMessage thrown])
                 [0 ..< length batches])"

text \<open>
  The indices of the slides whose speaker notes could not be added, in the order of the
  loop of lines 526 to 536.
\<close>

fun notesFailures ::
  "World \<Rightarrow> Credentials \<Rightarrow> string \<Rightarrow> nat \<Rightarrow> SlideContent list \<Rightarrow> apiCall list \<Rightarrow> nat list" where
  "notesFailures world auth presentationId i [] before = []"
| "notesFailures world auth presentationId i (content # rest) before =
     (if truthy (slideNotes content)
      then
        (case addSpeakerNotes world before auth presentationId
                (''slide_'' @ numberToString i) (stringOf (slideNotes content)) of
           (Inr ok, calls1) \<Rightarrow> notesFailures world auth presentationId (Suc i) rest calls1
         | (Inl thrown, calls1) \<Rightarrow> i # notesFailures world auth presentationId (Suc i) rest calls1)
      else notesFailures world auth presentationId (Suc i) rest before)"

definition notesWarning :: "nat \<Rightarrow> string" where
  "notesWarning i = ''Slide '' @ numberToString i @ '': Speaker notes could not be added''"

text \<open>The requests \<open>createSlideRequests\<close> returns for a slide (none if it threw).\<close>

definition compiledSlide :: "SlideContent \<Rightarrow> nat \<Rightarrow> ColorTheme option \<Rightarrow> request list" where
  "compiledSlide content index chosenTheme =
     (case createSlideRequests content index chosenTheme of
        Inr slideRequests \<Rightarrow> slideRequests
      | Inl thrown \<Rightarrow> [])"

section \<open>States of a single refresh\<close>



text \<open>
  What a caller can be doing once the refresh has ended: still waiting for promise 0,
  or, if the refresh succeeded, reading the profile or holding the one in the store, or
  having thrown.
\<close>

definition settledCaller :: "string \<Rightarrow> TokenManager \<Rightarrow> callerState \<Rightarrow> bool" where
  "settledCaller principalId s waiting =
     (case waiting of
        AwaitingPromise p userId \<Rightarrow> p = 0 \<and> userId = principalId
      | AwaitingProfile userId \<Rightarrow> userId = principalId \<and> promises s = [Fulfilled]
      | Returned updatedUser \<Rightarrow>
          promises s = [Fulfilled] \<and> profiles s principalId = Some updatedUser
      | Threw thrown \<Rightarrow> True)"


section \<open>Inputs for worked examples\<close>

definition exampleProfile :: Profile where
  "exampleProfile =
     \<lparr>profileId = ''teacher-1'',
      googleAccessToken = Some ''access'',
      googleRefreshToken = Some ''refresh'',
      googleTokenExpiry = Some 3600000\<rparr>"

definition defaultOptions :: CreatePresentationOptions where
  "defaultOptions = \<lparr>colorTheme = None, allowUntrustedImages = None\<rparr>"

text \<open>A slide with nothing on it, and slides with one field each.\<close>

definition blankSlide :: SlideContent where
  "blankSlide =
     \<lparr>slideType = content_slide, title = None, subtitle = None, bodyText = None,
      bulletPoints = None, imageUrl = None, imageAlt = None, imageAttribution = None,
      questions = None, slideNotes = None\<rparr>"

definition titledSlide :: SlideContent where
  "titledSlide = blankSlide\<lparr>title := Some ''Photosynthesis''\<rparr>"

definition slideWithFtpImage :: SlideContent where
  "slideWithFtpImage = titledSlide\<lparr>slideType := image_slide, imageUrl := Some ''ftp://x/y''\<rparr>"

definition slideWithNotes :: SlideContent where
  "slideWithNotes = titledSlide\<lparr>slideNotes := Some ''Ask the class first.''\<rparr>"

text \<open>
  A service that accepts every call and holds an empty deck (so no slide has a notes
  page), and one that refuses the second call it receives after the deck was read.
\<close>

definition quietWorld :: World where
  "quietWorld =
     \<lparr>clock = 0,
      awaitRefreshGoogleToken = (\<lambda>before user. Inr user),
      presentationsGet = (\<lambda>before auth presentationId. Inr (Some [])),
      presentationsBatchUpdate = (\<lambda>before auth presentationId requests. None)\<rparr>"


definition emptyRun :: RunState where
  "emptyRun = \<lparr>successCount = 0, failedSlides = [], warnings = [], allRequests = [], calls = []\<rparr>"

text \<open>
  Three requests of one principal whose token is about to expire. The second arrives while
  the provider is being asked, the third while the store is being written; then the
  refresh ends and the three go on in some order.
\<close>

definition freshCredentials :: Credentials where
  "freshCredentials =
     \<lparr>access_token = Some ''access-2'', refresh_token = None, expiry_date = Some 7200000\<rparr>"



definition exampleStore :: "string \<rightharpoonup> Profile" where
  "exampleStore = [''teacher-1'' \<mapsto> exampleProfile]"

definition requestThrough :: "RateLimitOptions \<Rightarrow> int \<Rightarrow> RateLimitRequest" where
  "requestThrough limiter now =
     \<lparr>via = limiter, skipped = False, identity = ''user-1'', arrival = now\<rparr>"

section \<open>Properties of the URL validator\<close>


lemma validateImageUrl_parsed:
  assumes "given \<noteq> []" and "trim given \<noteq> []" and "newURL api (trim given) = Some parsedUrl"
  shows "validateImageUrl api domains (Some given) allowUntrusted =
     (if protocol api parsedUrl \<noteq> ''http:'' \<and> protocol api parsedUrl \<noteq> ''https:''
      then Inl (InvalidImageUrlError (trim given))
      else if \<not> allowUntrusted \<and> \<not> isUrlTrusted api domains (href api (upgradeProtocol api parsedUrl))
      then Inl (UntrustedImageDomainError (href api (upgradeProtocol api parsedUrl)))
      else Inr (Some (href api (upgradeProtocol api parsedUrl))))"
  using assms by (simp add: validateImageUrl_def Let_def)


lemma simpleNewURL_ftp:
  "simpleNewURL ''ftp://x/y'' = Some (SimpleUrl ''ftp:'' ''x'' ''/y'')"
  by code_simp


lemma simpleNewURL_unsplash_https:
  "simpleNewURL ''https://images.unsplash.com/a.png''
     = Some (SimpleUrl ''https:'' ''images.unsplash.com'' ''/a.png'')"
  by code_simp


lemma trim_examples:
  "trim ''ftp://x/y'' = ''ftp://x/y''"
  "trim ''http://images.unsplash.com/a.png'' = ''http://images.unsplash.com/a.png''"
  "trim ''https://evil.example.com/a.png'' = ''https://evil.example.com/a.png''"
  by code_simp+




section \<open>Properties of the rate limiter\<close>



lemma ceilDiv_seconds: "ceilDiv (int w * 1000) 1000 = int w"
  unfolding ceilDiv_def by simp











lemma length_storesDuring [simp]: "length (storesDuring requests store) = Suc (length requests)"
  by (induction requests arbitrary: store) simp_all

lemma length_repliesDuring [simp]: "length (repliesDuring requests store) = length requests"
  by (induction requests arbitrary: store) simp_all



text \<open>
  The sweep removes only entries that a later request would replace anyway: the replies do
  not depend on whether it has run.
\<close>

lemma cleanup_is_invisible:
  "swept \<le> now \<Longrightarrow>
   fst (rateLimit options skipRequest key now (cleanup swept store))
     = fst (rateLimit options skipRequest key now store)"
  by (simp add: rateLimit_def currentWindow_def cleanup_def Let_def split: option.splits)

text \<open>
  The store has one entry per key, whatever limiter the request came through. A client
  that has made five requests through the general limiter within a minute has its first
  request through the limiter for presentations (five per five minutes) rejected.
\<close>

lemma limiters_share_the_entry:
  "rejection
     (repliesDuring
        [requestThrough generalApiRateLimit 0, requestThrough generalApiRateLimit 100,
         requestThrough generalApiRateLimit 200, requestThrough generalApiRateLimit 300,
         requestThrough generalApiRateLimit 400,
         requestThrough presentationCreationRateLimit 1000]
        Map.empty ! 5)
   = Some (429, 59)"
  by (simp add: requestThrough_def rateLimit_def currentWindow_def Let_def ceilDiv_def
      generalApiRateLimit_def presentationCreationRateLimit_def)



section \<open>Properties of the token manager\<close>








lemma settledCaller_callers [simp]:
  "settledCaller principalId (s\<lparr>callers := changed\<rparr>) waiting = settledCaller principalId s waiting"
  by (simp add: settledCaller_def split: callerState.splits)












text \<open>
  The limit of claim C1: the lock is deleted when the refresh ends. A call that arrives
  after that, with a copy of the profile read before, finds no lock and asks the provider
  again, even while the first caller is still reading the profile back.
\<close>

lemma late_call_refreshes_again:
  "map_option refreshCalls
     (runEvents [Invoke 1 exampleProfile, ProviderReplied 0 (Inr freshCredentials),
                 ProfileUpdated 0 True, Invoke 2 exampleProfile]
        (initialState exampleStore))
   = Some [''teacher-1'', ''teacher-1'']"
  by (simp add: initialState_def exampleStore_def settle_def updateProfile_def exampleProfile_def)

section \<open>Properties of the complexity check\<close>

lemma requestCount_le_18: "requestCount content \<le> 18"
  by (simp add: requestCount_def)

lemma validateSlideContentFrom_ok:
  "18 \<le> ceiling * 2 \<Longrightarrow> validateSlideContentFrom ceiling index slideContents = Inr ()"
proof (induction slideContents arbitrary: index)
  case Nil
  show ?case by simp
next
  case (Cons content rest)
  have "requestCount content \<le> ceiling * 2"
    using requestCount_le_18 [of content] Cons.prems by linarith
  with Cons show ?case by simp
qed

text \<open>
  Claim C10. For every slide the estimate of \<open>validateSlideContent\<close> is at most 18, which
  is below \<open>2 \<times> MAX_REQUESTS_PER_SLIDE = 20\<close>; so the \<open>BatchSizeExceededError\<close> branch
  cannot be taken and \<open>validateSlideContent\<close> returns normally on every slide list.
\<close>

theorem validateSlideContent_never_throws:
  "requestCount content \<le> 18 \<and> 18 < MAX_REQUESTS_PER_SLIDE * 2 \<and>
   validateSlideContent slideContents = Inr ()"
proof -
  have "validateSlideContentFrom MAX_REQUESTS_PER_SLIDE 0 slideContents = Inr ()"
    by (rule validateSlideContentFrom_ok) (simp add: MAX_REQUESTS_PER_SLIDE_def)
  then show ?thesis
    by (simp add: requestCount_le_18 validateSlideContent_def validateSlideContentWith_def
        MAX_REQUESTS_PER_SLIDE_def)
qed

section \<open>Properties of the batch execution\<close>







lemma processBatches_frame:
  "failedSlides (processBatches world auth presentationId i batches run) = failedSlides run
   \<and> allRequests (processBatches world auth presentationId i batches run) = allRequests run"
  by (induction batches arbitrary: i run) (simp_all split: option.splits)

lemma processBatches_calls:
  "calls (processBatches world auth presentationId i batches run)
     = calls run @ map (PresentationsBatchUpdate auth presentationId) batches"
  by (induction batches arbitrary: i run) (simp_all split: option.splits)

lemma processBatches_warnings_from:
  "warnings (processBatches world auth presentationId i batches run)
     = warnings run
       @ concat (map (\<lambda>j. case batchFailure world auth presentationId (calls run) batches j of
                          None \<Rightarrow> []
                        | Some thrown \<Rightarrow>
                            [''Batch '' @ numberToString (i + j) @ '' failed: '' @ errorMessage thrown])
                 [0 ..< length batches])"
proof (induction batches arbitrary: i run)
  case Nil
  show ?case by simp
next
  case (Cons batch rest)
  define after where "after =
       (case presentationsBatchUpdate world (calls run) auth presentationId batch of
          None \<Rightarrow>
            run\<lparr>successCount := successCount run + 1,
                calls := calls run @ [PresentationsBatchUpdate auth presentationId batch]\<rparr>
        | Some thrown \<Rightarrow>
            run\<lparr>warnings := warnings run @
                  [''Batch '' @ numberToString i @ '' failed: '' @ errorMessage thrown],
                calls := calls run @ [PresentationsBatchUpdate auth presentationId batch]\<rparr>)"
  define line where "line = (\<lambda>k thrown. ''Batch '' @ numberToString k @ '' failed: '' @ errorMessage thrown)"
  have c: "calls after = calls run @ [PresentationsBatchUpdate auth presentationId batch]"
    by (simp add: after_def split: option.splits)
  have shift: "batchFailure world auth presentationId (calls after) rest j
      = batchFailure world auth presentationId (calls run) (batch # rest) (Suc j)" for j
    by (simp add: batchFailure_def c)
  have first: "batchFailure world auth presentationId (calls run) (batch # rest) 0
      = presentationsBatchUpdate world (calls run) auth presentationId batch"
    by (simp add: batchFailure_def)
  have "[0 ..< Suc (length rest)] = 0 # [Suc 0 ..< Suc (length rest)]"
    by (rule upt_conv_Cons) simp
  then have idx: "[0 ..< length (batch # rest)] = 0 # map Suc [0 ..< length rest]"
    by (simp add: map_Suc_upt del: upt_Suc)
  have w: "warnings after = warnings run
      @ (case batchFailure world auth presentationId (calls run) (batch # rest) 0 of
           None \<Rightarrow> []
         | Some thrown \<Rightarrow> [line (i + 0) thrown])"
    by (simp add: first after_def line_def split: option.splits)
  have "warnings (processBatches world auth presentationId i (batch # rest) run)
      = warnings (processBatches world auth presentationId (Suc i) rest after)"
    by (simp add: after_def)
  also have "\<dots> = warnings after
       @ concat (map (\<lambda>j. case batchFailure world auth presentationId (calls after) rest j of
                          None \<Rightarrow> []
                        | Some thrown \<Rightarrow> [line (Suc i + j) thrown])
                 [0 ..< length rest])"
    unfolding line_def by (rule Cons.IH)
  also have "\<dots> = warnings run
       @ concat (map (\<lambda>j. case batchFailure world auth presentationId (calls run) (batch # rest) j of
                          None \<Rightarrow> []
                        | Some thrown \<Rightarrow> [line (i + j) thrown])
                 [0 ..< length (batch # rest)])"
    unfolding idx w shift by (simp add: comp_def cong: option.case_cong)
  finally show ?case unfolding line_def .
qed

lemma processBatches_warnings:
  "warnings (processBatches world auth presentationId 0 batches run)
     = warnings run @ batchWarnings world auth presentationId (calls run) batches"
  using processBatches_warnings_from [of world auth presentationId 0 batches run]
  by (simp add: batchWarnings_def cong: option.case_cong)


lemma addSlidesToPresentation_returns:
  assumes "getOAuth2Client world [] user = (Inr (auth, updatedUser), authCalls)"
      and "presentationsGet world authCalls auth presentationId = Inr slides"
  shows "addSlidesToPresentation api domains world user presentationId slideContents options =
     (let validatedSlides =
            validateSlideImages api domains slideContents
              (case allowUntrustedImages options of None \<Rightarrow> False | Some allow \<Rightarrow> allow);
          submitted =
            compileAndSubmit world auth presentationId slides validatedSlides options
              (authCalls @ [PresentationsGet auth presentationId]);
          finished = attachSpeakerNotes world auth presentationId 0 validatedSlides submitted
      in (Inr (outcomeOf validatedSlides finished), calls finished))"
proof -
  have "validateSlideContentWith MAX_REQUESTS_PER_SLIDE slideContents = Inr ()"
    unfolding validateSlideContentWith_def
    by (rule validateSlideContentFrom_ok) (simp add: MAX_REQUESTS_PER_SLIDE_def)
  with assms show ?thesis
    by (simp add: addSlidesToPresentation_def addSlidesToPresentationWith_def Let_def)
qed




section \<open>Properties of the speaker notes step\<close>

lemma attachSpeakerNotes_frame:
  "failedSlides (attachSpeakerNotes world auth presentationId i slides run) = failedSlides run
   \<and> successCount (attachSpeakerNotes world auth presentationId i slides run) = successCount run
   \<and> allRequests (attachSpeakerNotes world auth presentationId i slides run) = allRequests run"
  by (induction slides arbitrary: i run) (simp_all split: prod.splits sum.splits)

lemma attachSpeakerNotes_warnings:
  "warnings (attachSpeakerNotes world auth presentationId i slides run)
     = warnings run
       @ map notesWarning (notesFailures world auth presentationId i slides (calls run))"
proof (induction slides arbitrary: i run)
  case Nil
  show ?case by simp
next
  case (Cons content rest)
  show ?case
  proof (cases "truthy (slideNotes content)")
    case False
    with Cons.IH [of "Suc i" run] show ?thesis by simp
  next
    case True
    obtain result after where step:
      "addSpeakerNotes world (calls run) auth presentationId
         (''slide_'' @ numberToString i) (stringOf (slideNotes content)) = (result, after)"
      by (cases "addSpeakerNotes world (calls run) auth presentationId
         (''slide_'' @ numberToString i) (stringOf (slideNotes content))")
    show ?thesis
    proof (cases result)
      case (Inr ok)
      with True step Cons.IH [of "Suc i" "run\<lparr>calls := after\<rparr>"] show ?thesis by simp
    next
      case (Inl thrown)
      with True step
        Cons.IH [of "Suc i" "run\<lparr>warnings := warnings run @
              [''Slide '' @ numberToString i @ '': Speaker notes could not be added''],
            calls := after\<rparr>"]
      show ?thesis by (simp add: notesWarning_def)
    qed
  qed
qed

text \<open>
  Claim C8. Take a run of \<open>addSlidesToPresentation\<close> that has obtained the credentials and
  the deck, and let \<open>submitted\<close> be its state when the last batch has been sent, before the
  notes step. Whatever happens to the speaker notes, the function returns an outcome whose
  \<open>successCount\<close> and \<open>failedSlides\<close> are the ones computed from \<open>submitted\<close>, and whose
  warnings are those of \<open>submitted\<close> followed by one line for each slide whose notes could
  not be added.
\<close>

theorem speaker_notes_failure_frame:
  assumes "getOAuth2Client world [] user = (Inr (auth, updatedUser), authCalls)"
      and "presentationsGet world authCalls auth presentationId = Inr slides"
      and "validatedSlides =
             validateSlideImages api domains slideContents
               (case allowUntrustedImages options of None \<Rightarrow> False | Some allow \<Rightarrow> allow)"
      and "submitted =
             compileAndSubmit world auth presentationId slides validatedSlides options
               (authCalls @ [PresentationsGet auth presentationId])"
  shows "\<exists>outcome allCalls.
           addSlidesToPresentation api domains world user presentationId slideContents options
             = (Inr outcome, allCalls)
         \<and> successCount outcome = successCount (outcomeOf validatedSlides submitted)
         \<and> failedSlides outcome = failedSlides (outcomeOf validatedSlides submitted)
         \<and> warnings outcome
             = warnings (outcomeOf validatedSlides submitted)
               @ map notesWarning
                   (notesFailures world auth presentationId 0 validatedSlides (calls submitted))"
  using assms
  by (simp add: addSlidesToPresentation_returns Let_def outcomeOf_def attachSpeakerNotes_frame
      attachSpeakerNotes_warnings)

lemma addSpeakerNotes_quietWorld:
  "addSpeakerNotes quietWorld before auth presentationId slideId notesText
     = (Inl (SpeakerNotesError (parseInt (replaceFirst ''slide_'' [] slideId))),
        before @ [PresentationsGet auth presentationId])"
  by (simp add: addSpeakerNotes_def tryAddSpeakerNotes_def quietWorld_def findSlide_def Let_def)

section \<open>Properties of the request compiler\<close>

lemma createSlideRequests_total:
  "createSlideRequests content index chosenTheme = Inr (compiledSlide content index chosenTheme)"
  by (simp add: compiledSlide_def createSlideRequests_def imageRequests_def Let_def)

lemma compiledSlide_ids:
  assumes "r \<in> set (compiledSlide content index chosenTheme)" and "ident \<in> set (requestIds r)"
  shows "\<exists>kind \<in> set fieldKinds. ident = kind @ ''_'' @ numberToString index"
  using assms
  by (auto simp add: compiledSlide_def createSlideRequests_def imageRequests_def
      titleRequests_def subtitleRequests_def textRequests_def bulletRequests_def
      questionRequests_def fieldKinds_def Let_def split: if_splits)

lemma compileSlides_appends:
  "compileSlides chosenTheme i slides run =
     run\<lparr>allRequests := allRequests run
            @ concat (mapIndexed (\<lambda>content index. compiledSlide content index chosenTheme) i slides)\<rparr>"
  by (induction slides arbitrary: i run) (simp_all add: createSlideRequests_total)

lemma mapIndexed_nth:
  "k < length xs \<Longrightarrow> mapIndexed f i xs ! k = f (xs ! k) (i + k)"
  by (induction xs arbitrary: i k) (auto simp add: nth_Cons split: nat.splits)

lemma length_mapIndexed [simp]: "length (mapIndexed f i xs) = length xs"
  by (induction xs arbitrary: i) simp_all

text \<open>
  Claim C7. \<open>createSlideRequests\<close> never throws, and what it returns is determined by the
  slide, its index and the theme. The compilation loop appends, to whatever requests were
  there before, the requests of slide 0, then those of slide 1, and so on, and changes
  nothing else of the run: two compilations of the same slides with the same theme give the
  same requests in the same order, from whatever state they start. Every object identifier
  in the requests of the slide with index \<open>k\<close> is a field kind followed by \<open>_k\<close>.
\<close>

theorem compilation_deterministic:
  "(\<forall>k < length slides.
      createSlideRequests (slides ! k) k chosenTheme
        = Inr (compiledSlide (slides ! k) k chosenTheme)
      \<and> mapIndexed (\<lambda>content index. compiledSlide content index chosenTheme) 0 slides ! k
        = compiledSlide (slides ! k) k chosenTheme
      \<and> (\<forall>r \<in> set (compiledSlide (slides ! k) k chosenTheme).
           \<forall>ident \<in> set (requestIds r).
             \<exists>kind \<in> set fieldKinds. ident = kind @ ''_'' @ numberToString k))
   \<and> (\<forall>run.
        compileSlides chosenTheme 0 slides run =
          run\<lparr>allRequests := allRequests run
                 @ concat (mapIndexed (\<lambda>content index. compiledSlide content index chosenTheme)
                             0 slides)\<rparr>)
   \<and> (\<forall>run run'.
        drop (length (allRequests run)) (allRequests (compileSlides chosenTheme 0 slides run))
          = drop (length (allRequests run')) (allRequests (compileSlides chosenTheme 0 slides run')))"
  by (auto simp add: createSlideRequests_total compileSlides_appends mapIndexed_nth
      dest: compiledSlide_ids)

lemma numberToString_0: "numberToString 0 = ''0''"
  by (subst numberToString.simps) (simp add: digitChars_def)

lemma numberToString_1: "numberToString (Suc 0) = ''1''"
  by (subst numberToString.simps) (simp add: digitChars_def)

lemma truthy_simps [simp]:
  "truthy None = False" "truthy (Some s) = (s \<noteq> [])"
  by (simp_all add: truthy_def)

lemma nonEmptyArray_simps [simp]:
  "nonEmptyArray None = False" "nonEmptyArray (Some xs) = (xs \<noteq> [])"
  by (simp_all add: nonEmptyArray_def)

lemma compiledSlide_blank_0:
  "compiledSlide blankSlide 0 chosenTheme = [CreateSlide ''slide_0'' 0 ''BLANK'']"
  by (simp add: compiledSlide_def createSlideRequests_def imageRequests_def
      titleRequests_def subtitleRequests_def textRequests_def bulletRequests_def
      questionRequests_def blankSlide_def numberToString_0 Let_def)

lemma compiledSlide_titled_1:
  "compiledSlide titledSlide (Suc 0) (Some blue_theme) =
     [CreateSlide ''slide_1'' 1 ''BLANK'',
      CreateShape ''title_1'' ''TEXT_BOX''
        (ElementProperties ''slide_1''
           (Size (Dimension TITLE_BOX_HEIGHT_EMU ''EMU'') (Dimension TITLE_BOX_WIDTH_EMU ''EMU''))
           (Transform 1 1 TITLE_POSITION_X_EMU TITLE_POSITION_Y_EMU ''EMU'')),
      InsertText ''title_1'' ''Photosynthesis'',
      UpdateTextStyle ''title_1''
        (TextStyle (Dimension FONT_SIZE_TITLE_PT ''PT'') (Some True) (Some (RgbColor 26 52 96)))
        ''fontSize,bold,foregroundColor'']"
  by (simp add: compiledSlide_def createSlideRequests_def imageRequests_def
      titleRequests_def subtitleRequests_def textRequests_def bulletRequests_def
      questionRequests_def titledSlide_def blankSlide_def numberToString_1 stringOf_def Let_def)

theorem compilation_deterministic_witness:
  "(\<exists>kind \<in> set fieldKinds. ''title_1'' = kind @ ''_'' @ numberToString 1)
   \<and> allRequests (compileSlides (Some blue_theme) 0 [blankSlide, titledSlide] emptyRun) =
     [CreateSlide ''slide_0'' 0 ''BLANK'',
      CreateSlide ''slide_1'' 1 ''BLANK'',
      CreateShape ''title_1'' ''TEXT_BOX''
        (ElementProperties ''slide_1''
           (Size (Dimension TITLE_BOX_HEIGHT_EMU ''EMU'') (Dimension TITLE_BOX_WIDTH_EMU ''EMU''))
           (Transform 1 1 TITLE_POSITION_X_EMU TITLE_POSITION_Y_EMU ''EMU'')),
      InsertText ''title_1'' ''Photosynthesis'',
      UpdateTextStyle ''title_1''
        (TextStyle (Dimension FONT_SIZE_TITLE_PT ''PT'') (Some True) (Some (RgbColor 26 52 96)))
        ''fontSize,bold,foregroundColor'']"
proof -
  note facts = compilation_deterministic
    [where slides = "[blankSlide, titledSlide]" and chosenTheme = "Some blue_theme"]
  from facts have ids: "\<forall>r \<in> set (compiledSlide ([blankSlide, titledSlide] ! 1) 1 (Some blue_theme)).
           \<forall>ident \<in> set (requestIds r).
             \<exists>kind \<in> set fieldKinds. ident = kind @ ''_'' @ numberToString 1"
    by (elim conjE allE [of _ 1]) simp
  have "InsertText ''title_1'' ''Photosynthesis''
      \<in> set (compiledSlide ([blankSlide, titledSlide] ! 1) 1 (Some blue_theme))"
    by (simp add: compiledSlide_titled_1)
  with ids have a: "\<exists>kind \<in> set fieldKinds. ''title_1'' = kind @ ''_'' @ numberToString 1"
    by fastforce
  from facts have "compileSlides (Some blue_theme) 0 [blankSlide, titledSlide] emptyRun =
          emptyRun\<lparr>allRequests := allRequests emptyRun
                 @ concat (mapIndexed (\<lambda>content index. compiledSlide content index (Some blue_theme))
                             0 [blankSlide, titledSlide])\<rparr>"
    by blast
  then have b: "allRequests (compileSlides (Some blue_theme) 0 [blankSlide, titledSlide] emptyRun) =
     [CreateSlide ''slide_0'' 0 ''BLANK'',
      CreateSlide ''slide_1'' 1 ''BLANK'',
      CreateShape ''title_1'' ''TEXT_BOX''
        (ElementProperties ''slide_1''
           (Size (Dimension TITLE_BOX_HEIGHT_EMU ''EMU'') (Dimension TITLE_BOX_WIDTH_EMU ''EMU''))
           (Transform 1 1 TITLE_POSITION_X_EMU TITLE_POSITION_Y_EMU ''EMU'')),
      InsertText ''title_1'' ''Photosynthesis'',
      UpdateTextStyle ''title_1''
        (TextStyle (Dimension FONT_SIZE_TITLE_PT ''PT'') (Some True) (Some (RgbColor 26 52 96)))
        ''fontSize,bold,foregroundColor'']"
    by (simp add: compiledSlide_blank_0 compiledSlide_titled_1 emptyRun_def)
  from a b show ?thesis by blast
qed

section \<open>Properties of the whole run\<close>

lemma compileAndSubmit_failedSlides:
  "failedSlides (compileAndSubmit world auth presentationId slides validatedSlides options before)
     = []"
  by (simp add: compileAndSubmit_def Let_def processBatches_frame compileSlides_appends)

lemma compileAndSubmit_warnings:
  "warnings (compileAndSubmit world auth presentationId slides validatedSlides options before)
     = batchWarnings world auth presentationId before
         (batchesFrom 0
            ((if truthy (firstSlideId slides) then [DeleteObject (stringOf (firstSlideId slides))]
              else [])
             @ concat (mapIndexed (\<lambda>content index. compiledSlide content index (colorTheme options))
                         0 validatedSlides)))"
  by (simp add: compileAndSubmit_def Let_def processBatches_warnings compileSlides_appends)

lemma compileAndSubmit_calls:
  "calls (compileAndSubmit world auth presentationId slides validatedSlides options before)
     = before
       @ map (PresentationsBatchUpdate auth presentationId)
           (batchesFrom 0
              ((if truthy (firstSlideId slides) then [DeleteObject (stringOf (firstSlideId slides))]
                else [])
               @ concat (mapIndexed (\<lambda>content index. compiledSlide content index (colorTheme options))
                           0 validatedSlides)))"
  by (simp add: compileAndSubmit_def Let_def processBatches_calls compileSlides_appends)

lemma batchWarnings_quietWorld:
  "batchWarnings quietWorld auth presentationId before batches = []"
  by (simp add: batchWarnings_def batchFailure_def quietWorld_def)

lemma getOAuth2Client_example:
  "getOAuth2Client quietWorld [] exampleProfile
     = (Inr (credentialsOf exampleProfile, exampleProfile), [])"
  by (simp add: getOAuth2Client_def quietWorld_def exampleProfile_def needsTokenRefresh_def)

lemma validateSlideImages_length [simp]:
  "length (validateSlideImages api domains slideContents allowUntrusted) = length slideContents"
  by (simp add: validateSlideImages_def)

lemma validateSlideImage_keeps:
  "title (validateSlideImage api domains allowUntrusted slide) = title slide
   \<and> subtitle (validateSlideImage api domains allowUntrusted slide) = subtitle slide
   \<and> bodyText (validateSlideImage api domains allowUntrusted slide) = bodyText slide
   \<and> bulletPoints (validateSlideImage api domains allowUntrusted slide) = bulletPoints slide
   \<and> questions (validateSlideImage api domains allowUntrusted slide) = questions slide
   \<and> slideNotes (validateSlideImage api domains allowUntrusted slide) = slideNotes slide
   \<and> slideType (validateSlideImage api domains allowUntrusted slide) = slideType slide"
  by (simp add: validateSlideImage_def split: sum.splits)

lemma validateSlideImage_rejected:
  "truthy (imageUrl slide) \<Longrightarrow>
   validateImageUrl api domains (imageUrl slide) allowUntrusted = Inl thrown \<Longrightarrow>
   validateSlideImage api domains allowUntrusted slide = slide\<lparr>imageUrl := None\<rparr>"
  by (simp add: validateSlideImage_def)

lemma validateImageUrl_ftp:
  "validateImageUrl simpleUrlApi TRUSTED_IMAGE_DOMAINS (Some ''ftp://x/y'') False
     = Inl (InvalidImageUrlError ''ftp://x/y'')"
  using validateImageUrl_parsed [where api = simpleUrlApi and given = "''ftp://x/y''"
      and parsedUrl = "SimpleUrl ''ftp:'' ''x'' ''/y''" and domains = TRUSTED_IMAGE_DOMAINS
      and allowUntrusted = False]
  by (simp add: trim_examples simpleNewURL_ftp simpleUrlApi_def)

lemma batchesFrom_short:
  "0 < length xs \<Longrightarrow> length xs \<le> GOOGLE_API_BATCH_SIZE \<Longrightarrow> batchesFrom 0 xs = [xs]"
  by (subst batchesFrom.simps, subst batchesFrom.simps) (simp add: slice_def)

text \<open>
  Claim C4, on the code. A slide whose image URL is refused keeps everything but the image,
  and the run goes on: with the URL \<open>ftp://x/y\<close> the slide is compiled without its image
  and counted as a success. But the list of warnings that is returned is empty: the
  \<open>catch\<close> of \<open>validateSlideImages\<close> writes to the console only.
\<close>

theorem image_removal_leaves_no_warning:
  "validateSlideImages simpleUrlApi TRUSTED_IMAGE_DOMAINS [slideWithFtpImage] False
     = [slideWithFtpImage\<lparr>imageUrl := None\<rparr>]
   \<and> fst (addSlidesToPresentation simpleUrlApi TRUSTED_IMAGE_DOMAINS quietWorld exampleProfile
            ''deck'' [slideWithFtpImage] defaultOptions)
     = Inr \<lparr>successCount = 1, failedSlides = [], warnings = []\<rparr>"
proof -
  have v: "validateSlideImages simpleUrlApi TRUSTED_IMAGE_DOMAINS [slideWithFtpImage] False
     = [slideWithFtpImage\<lparr>imageUrl := None\<rparr>]"
    by (simp add: validateSlideImages_def validateSlideImage_def validateImageUrl_ftp
        slideWithFtpImage_def)
  have n: "attachSpeakerNotes quietWorld auth ''deck'' 0 [slideWithFtpImage\<lparr>imageUrl := None\<rparr>] run
      = run" for auth run
    by (simp add: slideWithFtpImage_def titledSlide_def blankSlide_def)
  have g: "presentationsGet quietWorld [] (credentialsOf exampleProfile) ''deck'' = Inr (Some [])"
    by (simp add: quietWorld_def)
  define submitted where "submitted =
      compileAndSubmit quietWorld (credentialsOf exampleProfile) ''deck'' (Some [])
        [slideWithFtpImage\<lparr>imageUrl := None\<rparr>] defaultOptions
        [PresentationsGet (credentialsOf exampleProfile) ''deck'']"
  have "fst (addSlidesToPresentation simpleUrlApi TRUSTED_IMAGE_DOMAINS quietWorld exampleProfile
            ''deck'' [slideWithFtpImage] defaultOptions)
     = Inr (outcomeOf [slideWithFtpImage\<lparr>imageUrl := None\<rparr>]
              (attachSpeakerNotes quietWorld (credentialsOf exampleProfile) ''deck'' 0
                 [slideWithFtpImage\<lparr>imageUrl := None\<rparr>] submitted))"
    unfolding submitted_def
    by (simp add: addSlidesToPresentation_returns [OF getOAuth2Client_example g]
        v Let_def defaultOptions_def del: attachSpeakerNotes.simps)
  also have "\<dots> = Inr (outcomeOf [slideWithFtpImage\<lparr>imageUrl := None\<rparr>] submitted)"
    by (simp only: n)
  also have "\<dots> = Inr \<lparr>successCount = 1, failedSlides = [], warnings = []\<rparr>"
    unfolding submitted_def
    by (simp add: outcomeOf_def compileAndSubmit_failedSlides compileAndSubmit_warnings
        batchWarnings_quietWorld)
  finally have "fst (addSlidesToPresentation simpleUrlApi TRUSTED_IMAGE_DOMAINS quietWorld
            exampleProfile ''deck'' [slideWithFtpImage] defaultOptions)
     = Inr \<lparr>successCount = 1, failedSlides = [], warnings = []\<rparr>" .
  with v show ?thesis by simp
qed

theorem speaker_notes_failure_frame_witness:
  "fst (addSlidesToPresentation simpleUrlApi TRUSTED_IMAGE_DOMAINS quietWorld exampleProfile
          ''deck'' [slideWithNotes] defaultOptions)
     = Inr \<lparr>successCount = 1, failedSlides = [],
            warnings = [''Slide 0: Speaker notes could not be added'']\<rparr>"
proof -
  have g: "presentationsGet quietWorld [] (credentialsOf exampleProfile) ''deck'' = Inr (Some [])"
    by (simp add: quietWorld_def)
  have v: "validateSlideImages simpleUrlApi TRUSTED_IMAGE_DOMAINS [slideWithNotes]
      (case allowUntrustedImages defaultOptions of None \<Rightarrow> False | Some allow \<Rightarrow> allow)
      = [slideWithNotes]"
    by (simp add: validateSlideImages_def validateSlideImage_def slideWithNotes_def
        titledSlide_def blankSlide_def)
  define submitted where "submitted =
      compileAndSubmit quietWorld (credentialsOf exampleProfile) ''deck'' (Some [])
        [slideWithNotes] defaultOptions [PresentationsGet (credentialsOf exampleProfile) ''deck'']"
  from speaker_notes_failure_frame [OF getOAuth2Client_example g v [symmetric], of submitted]
  obtain outcome allCalls where
    run: "addSlidesToPresentation simpleUrlApi TRUSTED_IMAGE_DOMAINS quietWorld exampleProfile
            ''deck'' [slideWithNotes] defaultOptions = (Inr outcome, allCalls)"
    and sc: "successCount outcome = successCount (outcomeOf [slideWithNotes] submitted)"
    and fs: "failedSlides outcome = failedSlides (outcomeOf [slideWithNotes] submitted)"
    and ws: "warnings outcome
             = warnings (outcomeOf [slideWithNotes] submitted)
               @ map notesWarning
                   (notesFailures quietWorld (credentialsOf exampleProfile) ''deck'' 0
                      [slideWithNotes] (calls submitted))"
    unfolding submitted_def by auto
  have pre: "outcomeOf [slideWithNotes] submitted
      = \<lparr>successCount = 1, failedSlides = [], warnings = []\<rparr>"
    unfolding submitted_def
    by (simp add: outcomeOf_def compileAndSubmit_failedSlides compileAndSubmit_warnings
        batchWarnings_quietWorld)
  have failures: "notesFailures quietWorld (credentialsOf exampleProfile) ''deck'' 0
      [slideWithNotes] (calls submitted) = [0]"
    by (simp add: addSpeakerNotes_quietWorld slideWithNotes_def titledSlide_def blankSlide_def)
  have line: "notesWarning 0 = ''Slide 0: Speaker notes could not be added''"
    by (simp add: notesWarning_def numberToString_0)
  from sc fs ws have "outcome = \<lparr>successCount = 1, failedSlides = [],
            warnings = [''Slide 0: Speaker notes could not be added'']\<rparr>"
    by (cases outcome) (simp add: pre failures line del: notesFailures.simps)
  with run show ?thesis by simp
qed






end
